theory Spec2Isabelle
  imports Main "HOL-Library.Sublist"
begin

section \<open>Website categorizer: the embedding of main.py\<close>

subsection \<open>Strings\<close>

text \<open>
  A Python \<open>str\<close> is a sequence of Unicode code points: slicing, \<open>len\<close> and
  \<open>==\<close> work on code points. A string is therefore a list of code points, each
  a natural number; \<open>py\<close> turns an ASCII literal of the source into one.
\<close>

type_synonym codepoint = nat
type_synonym pystr = "codepoint list"

definition py :: "string \<Rightarrow> pystr" where
  "py s = map of_char s"

subsection \<open>The fixed niches (main.py, lines 14-19)\<close>

definition ALLOWED_NICHES :: "pystr list" where
  "ALLOWED_NICHES = map py
     [''Business'', ''Digital Marketing & Advertising'', ''Technology / Gadgets & Technology'',
      ''SaaS'', ''Ecommerce'', ''Finance'', ''Health'', ''Lifestyle'', ''Education'',
      ''Real Estate'', ''Casino'', ''CBD'', ''Blockchain & Cryptocurrency'',
      ''Gaming'', ''Pharmacy'', ''Banking'', ''Energy'', ''Manufacturing & Industry'', ''Science'']"

text \<open>
  The list of labels as the data model of the specification prints it, in its order.
  It is the specification's side of the comparison with \<open>ALLOWED_NICHES\<close>.
\<close>

definition spec_AllowedNiches :: "pystr list" where
  "spec_AllowedNiches = map py
     [''Business'', ''Digital Marketing & Advertising'', ''Technology/Gadgets & Technology'',
      ''SaaS'', ''Ecommerce'', ''Finance'', ''Health'', ''Lifestyle'', ''Education'',
      ''Real Estate'', ''Casino'', ''CBD'', ''Blockchain & Cryptocurrency'',
      ''Gaming'', ''Pharmacy'', ''Banking'', ''Energy'', ''Manufacturing & Industry'', ''Science'']"

subsection \<open>Final validation (main.py, lines 87-88)\<close>

text \<open>
  \<^verbatim>\<open>valid_categories = [c for c in result.categories if c in ALLOWED_NICHES]\<close>:
  the comprehension keeps, in order, each element that is equal to a member of the list.
\<close>

definition valid_categories :: "pystr list \<Rightarrow> pystr list" where
  "valid_categories categories = filter (\<lambda>c. c \<in> set ALLOWED_NICHES) categories"

text \<open>
  \<^verbatim>\<open>valid_categories or ["Business"]\<close>: a list is falsy exactly when it is empty,
  and \<open>or\<close> then yields its right operand.
\<close>

definition categories_or_default :: "pystr list \<Rightarrow> pystr list" where
  "categories_or_default categories =
     (let valid = valid_categories categories
      in if valid = [] then [py ''Business''] else valid)"

subsection \<open>Exceptions\<close>

text \<open>
  The exceptions that can travel through the two functions. \<open>HTTPException\<close> is
  FastAPI's, with its status code and detail; \<open>HTTPStatusError\<close> is what
  \<open>response.raise_for_status()\<close> raises, with the status of the response;
  \<open>RequestError\<close> is httpx's class of network-level failures, with \<open>str(exc)\<close>.
  \<open>OtherException\<close> stands for any other instance of \<open>Exception\<close>, and
  \<open>BaseExceptionOnly\<close> for what derives from \<open>BaseException\<close> alone (a task
  cancellation, an interpreter exit).
\<close>

datatype exn =
    HTTPException nat pystr
  | HTTPStatusError nat
  | RequestError pystr
  | ValueError pystr
  | OtherException pystr
  | BaseExceptionOnly pystr

fun is_Exception :: "exn \<Rightarrow> bool" where
  "is_Exception (BaseExceptionOnly _) = False"
| "is_Exception _ = True"

subsection \<open>The parsed page\<close>

text \<open>
  What \<open>BeautifulSoup(response.text, 'html.parser')\<close> builds: a tree of tags, each
  with its name and contents, and of strings. \<open>NavigableString\<close> is the text that
  \<open>get_text\<close> collects; \<open>SpecialString\<close> stands for the string classes it leaves
  out (comments, declarations, doctypes). The parser belongs to the library: it is a
  parameter of the extractor.
\<close>

datatype node =
    Tag pystr "node list"
  | NavigableString pystr
  | SpecialString pystr

type_synonym soup = "node list"

text \<open>
  \<^verbatim>\<open>for element in soup([...]): element.decompose()\<close>: \<open>soup(names)\<close> is
  \<open>find_all\<close>, every tag below the root whose name is in the list, and
  \<open>decompose\<close> takes the tag out of the tree with everything it contains. After the
  loop no tag with such a name is left, at any depth.
\<close>

primrec decompose_all :: "pystr list \<Rightarrow> node \<Rightarrow> node list" where
  "decompose_all names (Tag name contents) =
     (if name \<in> set names then []
      else [Tag name (concat (map (decompose_all names) contents))])"
| "decompose_all names (NavigableString s) = [NavigableString s]"
| "decompose_all names (SpecialString s) = [SpecialString s]"

definition decompose_soup :: "pystr list \<Rightarrow> soup \<Rightarrow> soup" where
  "decompose_soup names sp = concat (map (decompose_all names) sp)"

text \<open>The strings \<open>get_text\<close> walks over, in document order.\<close>

primrec all_strings :: "node \<Rightarrow> pystr list" where
  "all_strings (Tag name contents) = concat (map all_strings contents)"
| "all_strings (NavigableString s) = [s]"
| "all_strings (SpecialString s) = []"

text \<open>\<open>str.isspace\<close> on one code point, and \<open>str.strip()\<close>.\<close>

definition isspace :: "codepoint \<Rightarrow> bool" where
  "isspace c \<longleftrightarrow>
     (0x09 \<le> c \<and> c \<le> 0x0D) \<or> (0x1C \<le> c \<and> c \<le> 0x20) \<or> c = 0x85 \<or> c = 0xA0
     \<or> c = 0x1680 \<or> (0x2000 \<le> c \<and> c \<le> 0x200A) \<or> c = 0x2028 \<or> c = 0x2029
     \<or> c = 0x202F \<or> c = 0x205F \<or> c = 0x3000"

definition strip :: "pystr \<Rightarrow> pystr" where
  "strip s = rev (dropWhile isspace (rev (dropWhile isspace s)))"

text \<open>\<open>separator.join(strings)\<close>.\<close>

fun join :: "pystr \<Rightarrow> pystr list \<Rightarrow> pystr" where
  "join sep [] = []"
| "join sep [s] = s"
| "join sep (s # t # ss) = s @ sep @ join sep (t # ss)"

text \<open>
  \<^verbatim>\<open>soup.get_text(separator=" ", strip=True)\<close>: each string is stripped, the ones
  that are empty after that are skipped, and the rest is joined with the separator.
\<close>

definition stripped_strings :: "soup \<Rightarrow> pystr list" where
  "stripped_strings sp = filter (\<lambda>s. s \<noteq> []) (map strip (concat (map all_strings sp)))"

definition get_text :: "soup \<Rightarrow> pystr" where
  "get_text sp = join (py '' '') (stripped_strings sp)"

text \<open>
  Each collected string of a tree with the names of the tags it lies in, innermost first.
  This is the specification's notion of a text being inside an element.
\<close>

primrec located_strings :: "node \<Rightarrow> pystr list \<Rightarrow> (pystr list \<times> pystr) list" where
  "located_strings (Tag name contents) ancestors =
     concat (map (\<lambda>child. located_strings child (name # ancestors)) contents)"
| "located_strings (NavigableString s) ancestors = [(ancestors, s)]"
| "located_strings (SpecialString s) ancestors = []"

primrec tag_names :: "node \<Rightarrow> pystr set" where
  "tag_names (Tag name contents) = insert name (\<Union> (set (map tag_names contents)))"
| "tag_names (NavigableString s) = {}"
| "tag_names (SpecialString s) = {}"

subsection \<open>The content extractor (main.py, lines 31-54)\<close>

record response =
  status_code :: nat
  body :: pystr

definition is_success :: "nat \<Rightarrow> bool" where
  "is_success status \<longleftrightarrow> 200 \<le> status \<and> status \<le> 299"

definition REMOVED_TAGS :: "pystr list" where
  "REMOVED_TAGS = map py [''script'', ''style'', ''nav'', ''footer'', ''header'']"

definition page_text :: "soup \<Rightarrow> pystr" where
  "page_text sp = get_text (decompose_soup REMOVED_TAGS sp)"

text \<open>
  \<open>client_get\<close> is the outcome of \<open>await client.get(url, headers=headers)\<close>:
  a response or a raised exception. \<open>response.raise_for_status()\<close> raises for every
  status that is not 2xx. The only handler of the function is
  \<open>except httpx.RequestError\<close>, which turns a network failure into a 502; every other
  exception leaves the function as it is.
\<close>

definition extract_website_text_async ::
  "(pystr \<Rightarrow> exn + response) \<Rightarrow> (pystr \<Rightarrow> soup) \<Rightarrow> pystr \<Rightarrow> exn + pystr" where
  "extract_website_text_async client_get BeautifulSoup url =
     (case client_get url of
        Inl (RequestError msg) \<Rightarrow> Inl (HTTPException 502 (py ''Network error: '' @ msg))
      | Inl exc \<Rightarrow> Inl exc
      | Inr response \<Rightarrow>
          if status_code response = 403
          then Inl (HTTPException 403
                  (py ''Access denied by website (Cloudflare/Bot protection).''))
          else if \<not> is_success (status_code response)
          then Inl (HTTPStatusError (status_code response))
          else let text = page_text (BeautifulSoup (body response))
               in if text = [] then Inl (ValueError (py ''Website returned no readable text.''))
                  else Inr (take 5000 text))"

subsection \<open>The request handler (main.py, lines 59-94)\<close>

text \<open>
  The call of the extractor stands before the \<open>try\<close>, so what it raises leaves the
  handler unchanged. \<open>ainvoke\<close> is the classification step inside the \<open>try\<close>
  (lines 66-84: building the chain and invoking it on the text), a collaborator outside
  the program: from the text and the state of the model backend it yields the list the
  model reported, or a raised exception, and the state of the backend after it. The
  handler reaches the backend through this call only, so the state of the backend after
  the request tells whether, and on what text, the classifier was invoked.
  \<open>except Exception\<close> turns every instance of \<open>Exception\<close> raised in the body
  into the fixed 500.
\<close>

definition categorize_website ::
  "(pystr \<Rightarrow> exn + response) \<Rightarrow> (pystr \<Rightarrow> soup)
     \<Rightarrow> (pystr \<Rightarrow> 'backend \<Rightarrow> (exn + pystr list) \<times> 'backend)
     \<Rightarrow> pystr \<Rightarrow> 'backend \<Rightarrow> (exn + pystr list) \<times> 'backend" where
  "categorize_website client_get BeautifulSoup ainvoke url backend =
     (case extract_website_text_async client_get BeautifulSoup url of
        Inl exc \<Rightarrow> (Inl exc, backend)
      | Inr text_content \<Rightarrow>
          (case ainvoke text_content backend of
             (result, backend') \<Rightarrow>
               (case result of
                  Inl e \<Rightarrow>
                    if is_Exception e
                    then Inl (HTTPException 500 (py ''LLM failed to process the request.''))
                    else Inl e
                | Inr categories \<Rightarrow> Inr (categories_or_default categories),
                backend')))"

text \<open>
  What the web framework sends for an outcome of the handler: the returned model as a
  200, an \<open>HTTPException\<close> as its status with its detail, any other instance of
  \<open>Exception\<close> as the plain 500 of the server, and nothing for the rest.
\<close>

datatype http_response =
    Json200 "pystr list"
  | JsonError nat pystr
  | InternalServerError
  | NoResponse

fun respond :: "exn + pystr list \<Rightarrow> http_response" where
  "respond (Inr categories) = Json200 categories"
| "respond (Inl (HTTPException status detail)) = JsonError status detail"
| "respond (Inl (BaseExceptionOnly _)) = NoResponse"
| "respond (Inl _) = InternalServerError"

fun response_status :: "http_response \<Rightarrow> nat option" where
  "response_status (Json200 _) = Some 200"
| "response_status (JsonError status _) = Some status"
| "response_status InternalServerError = Some 500"
| "response_status NoResponse = None"

subsection \<open>Example collaborators\<close>

text \<open>
  Concrete outcomes of the fetch, of the parser and of the model, on which the functions
  above are evaluated below. The state of the example backends is the list of the texts
  they have received.
\<close>

definition page_200 :: "pystr \<Rightarrow> exn + response" where
  "page_200 url = Inr \<lparr>status_code = 200, body = py ''<p>We sell cloud SaaS tools</p>''\<rparr>"

definition parsed_page :: "pystr \<Rightarrow> soup" where
  "parsed_page html = [Tag (py ''header'') [NavigableString (py ''Nav'')],
                       Tag (py ''p'') [NavigableString (py '' We sell cloud SaaS tools '')]]"

definition long_page :: "pystr \<Rightarrow> soup" where
  "long_page html = [Tag (py ''p'') [NavigableString (replicate 6000 97)]]"

definition page_status :: "nat \<Rightarrow> pystr \<Rightarrow> exn + response" where
  "page_status status url = Inr \<lparr>status_code = status, body = []\<rparr>"

definition script_only :: "pystr \<Rightarrow> soup" where
  "script_only html = [Tag (py ''script'') [NavigableString (py ''var x = 1;'')],
                       NavigableString (py ''  ''), SpecialString (py ''a comment'')]"

definition two_paragraphs :: "pystr \<Rightarrow> soup" where
  "two_paragraphs html =
     [Tag (py ''header'') [NavigableString (py ''Nav'')],
      Tag (py ''p'') [NavigableString (py '' We sell '')],
      Tag (py ''div'') [Tag (py ''script'') [NavigableString (py ''var x = 1;'')],
                        SpecialString (py ''a comment''),
                        Tag (py ''b'') [NavigableString (py ''cloud SaaS'')]],
      NavigableString (py ''   ''),
      Tag (py ''p'') [NavigableString (py ''tools'')]]"

definition network_down :: "pystr \<Rightarrow> exn + response" where
  "network_down url = Inl (RequestError (py ''All connection attempts failed''))"

definition model_saas :: "pystr \<Rightarrow> pystr list \<Rightarrow> (exn + pystr list) \<times> pystr list" where
  "model_saas content received =
     (Inr [py ''SaaS'', py ''Crypto Stuff'', py ''Business''], received @ [content])"

definition model_fails :: "pystr \<Rightarrow> pystr list \<Rightarrow> (exn + pystr list) \<times> pystr list" where
  "model_fails content received =
     (Inl (OtherException (py ''429 quota exceeded for key'')), received @ [content])"

section \<open>Properties\<close>

subsection \<open>Validation\<close>

lemma Business_allowed: "py ''Business'' \<in> set ALLOWED_NICHES"
  by (simp add: ALLOWED_NICHES_def)

lemma valid_categories_subset: "set (valid_categories cs) \<subseteq> set ALLOWED_NICHES"
  by (auto simp: valid_categories_def)

lemma valid_categories_id:
  "set cs \<subseteq> set ALLOWED_NICHES \<Longrightarrow> valid_categories cs = cs"
  unfolding valid_categories_def by (rule filter_True) auto

lemma categories_or_default_allowed:
  "set (categories_or_default cs) \<subseteq> set ALLOWED_NICHES"
  using valid_categories_subset [of cs] Business_allowed
  by (auto simp: categories_or_default_def Let_def)

lemma categories_or_default_nonempty: "categories_or_default cs \<noteq> []"
  by (simp add: categories_or_default_def Let_def)


subsection \<open>The paths through the extractor and the handler\<close>

lemma extract_failure_propagates:
  "extract_website_text_async client_get BeautifulSoup url = Inl exc \<Longrightarrow>
   categorize_website client_get BeautifulSoup ainvoke url backend = (Inl exc, backend)"
  by (simp add: categorize_website_def)

lemma extract_403:
  "client_get url = Inr r \<Longrightarrow> status_code r = 403 \<Longrightarrow>
   extract_website_text_async client_get BeautifulSoup url =
     Inl (HTTPException 403 (py ''Access denied by website (Cloudflare/Bot protection).''))"
  by (simp add: extract_website_text_async_def)

lemma extract_status_error:
  "client_get url = Inr r \<Longrightarrow> status_code r \<noteq> 403 \<Longrightarrow> \<not> is_success (status_code r) \<Longrightarrow>
   extract_website_text_async client_get BeautifulSoup url = Inl (HTTPStatusError (status_code r))"
  by (simp add: extract_website_text_async_def)

lemma extract_empty:
  "client_get url = Inr r \<Longrightarrow> is_success (status_code r) \<Longrightarrow>
   page_text (BeautifulSoup (body r)) = [] \<Longrightarrow>
   extract_website_text_async client_get BeautifulSoup url =
     Inl (ValueError (py ''Website returned no readable text.''))"
  by (auto simp add: extract_website_text_async_def is_success_def)

lemma extract_ok:
  "client_get url = Inr r \<Longrightarrow> is_success (status_code r) \<Longrightarrow>
   page_text (BeautifulSoup (body r)) \<noteq> [] \<Longrightarrow>
   extract_website_text_async client_get BeautifulSoup url =
     Inr (take 5000 (page_text (BeautifulSoup (body r))))"
  by (auto simp add: extract_website_text_async_def is_success_def Let_def)

lemma extract_Inr_iff:
  "extract_website_text_async client_get BeautifulSoup url = Inr t \<longleftrightarrow>
   (\<exists>r. client_get url = Inr r \<and> is_success (status_code r)
      \<and> page_text (BeautifulSoup (body r)) \<noteq> []
      \<and> t = take 5000 (page_text (BeautifulSoup (body r))))"
  by (auto simp add: extract_website_text_async_def is_success_def Let_def
      split: sum.splits exn.splits)

lemma respond_Json200_iff: "respond x = Json200 cats \<longleftrightarrow> x = Inr cats"
proof (cases x)
  case (Inl e)
  then show ?thesis by (cases e) simp_all
next
  case (Inr cs)
  then show ?thesis by auto
qed

lemma categorize_success:
  "fst (categorize_website client_get BeautifulSoup ainvoke url backend) = Inr cats \<Longrightarrow>
   \<exists>t cs. extract_website_text_async client_get BeautifulSoup url = Inr t
        \<and> fst (ainvoke t backend) = Inr cs \<and> cats = categories_or_default cs"
  by (auto simp: categorize_website_def split: sum.splits if_splits prod.splits)

lemma categorize_after_extract:
  "extract_website_text_async client_get BeautifulSoup url = Inr t \<Longrightarrow>
   categorize_website client_get BeautifulSoup ainvoke url backend =
     (case fst (ainvoke t backend) of
        Inl e \<Rightarrow>
          if is_Exception e
          then Inl (HTTPException 500 (py ''LLM failed to process the request.''))
          else Inl e
      | Inr categories \<Rightarrow> Inr (categories_or_default categories),
      snd (ainvoke t backend))"
  by (simp add: categorize_website_def split: prod.splits)

subsection \<open>Removing tags and collecting text\<close>

lemma located_strings_ancestors:
  "p \<in> set (located_strings n anc) \<Longrightarrow> set anc \<subseteq> set (fst p)"
proof (induction n arbitrary: anc)
  case (Tag name contents)
  then obtain child where "child \<in> set contents"
    and "p \<in> set (located_strings child (name # anc))"
    by auto
  then have "set (name # anc) \<subseteq> set (fst p)"
    using Tag.IH by blast
  then show ?case by auto
qed auto

lemma located_strings_inside:
  assumes "set anc \<inter> set names \<noteq> {}"
  shows "filter (\<lambda>p. set (fst p) \<inter> set names = {}) (located_strings n anc) = []"
  using assms located_strings_ancestors [of _ n anc]
  by (fastforce simp: filter_empty_conv)

lemma all_strings_decompose_all:
  "set anc \<inter> set names = {} \<Longrightarrow>
   concat (map all_strings (decompose_all names n)) =
     map snd (filter (\<lambda>p. set (fst p) \<inter> set names = {}) (located_strings n anc))"
proof (induction n arbitrary: anc)
  case (Tag name contents)
  show ?case
  proof (cases "name \<in> set names")
    case True
    then have "set (name # anc) \<inter> set names \<noteq> {}" by auto
    then have "\<And>child. filter (\<lambda>p. set (fst p) \<inter> set names = {})
        (located_strings child (name # anc)) = []"
      by (rule located_strings_inside)
    with True show ?thesis by (simp add: filter_concat)
  next
    case False
    with Tag.prems have disj: "set (name # anc) \<inter> set names = {}" by auto
    have "concat (map all_strings (concat (map (decompose_all names) contents))) =
        concat (map (\<lambda>child. concat (map all_strings (decompose_all names child))) contents)"
      by (induction contents) auto
    also have "\<dots> = concat (map (\<lambda>child. map snd (filter (\<lambda>p. set (fst p) \<inter> set names = {})
        (located_strings child (name # anc)))) contents)"
      using Tag.IH [OF _ disj] by (auto intro!: arg_cong [where f = concat])
    also have "\<dots> = map snd (filter (\<lambda>p. set (fst p) \<inter> set names = {})
        (concat (map (\<lambda>child. located_strings child (name # anc)) contents)))"
      by (induction contents) auto
    finally show ?thesis using False by simp
  qed
qed auto

lemma tag_names_decompose_all:
  "m \<in> set (decompose_all names n) \<Longrightarrow> tag_names m \<inter> set names = {}"
proof (induction n arbitrary: m)
  case (Tag name contents)
  show ?case
  proof (cases "name \<in> set names")
    case True
    with Tag.prems show ?thesis by simp
  next
    case False
    with Tag.prems have m: "m = Tag name (concat (map (decompose_all names) contents))" by simp
    have "\<And>k. k \<in> set (concat (map (decompose_all names) contents)) \<Longrightarrow>
        tag_names k \<inter> set names = {}"
      using Tag.IH by auto
    with False m show ?thesis by auto
  qed
qed auto

lemma all_strings_decompose_soup:
  "concat (map all_strings (decompose_soup names sp)) =
     map snd (filter (\<lambda>p. set (fst p) \<inter> set names = {})
       (concat (map (\<lambda>n. located_strings n []) sp)))"
proof -
  have "concat (map all_strings (decompose_soup names sp)) =
      concat (map (\<lambda>n. concat (map all_strings (decompose_all names n))) sp)"
    unfolding decompose_soup_def by (induction sp) auto
  also have "\<dots> = concat (map (\<lambda>n. map snd (filter (\<lambda>p. set (fst p) \<inter> set names = {})
      (located_strings n []))) sp)"
    using all_strings_decompose_all [of "[]" names] by simp
  also have "\<dots> = map snd (filter (\<lambda>p. set (fst p) \<inter> set names = {})
       (concat (map (\<lambda>n. located_strings n []) sp)))"
    by (induction sp) auto
  finally show ?thesis .
qed

lemma tag_names_decompose_soup:
  "\<Union> (tag_names ` set (decompose_soup names sp)) \<inter> set names = {}"
  using tag_names_decompose_all [of _ names] by (fastforce simp: decompose_soup_def)

lemma last_dropWhile: "dropWhile P xs \<noteq> [] \<Longrightarrow> last (dropWhile P xs) = last xs"
  by (induction xs) (auto split: if_splits)

lemma strip_ends:
  "strip s = [] \<or> (\<not> isspace (hd (strip s)) \<and> \<not> isspace (last (strip s)))"
proof (cases "strip s = []")
  case False
  define u where "u = dropWhile isspace s"
  define v where "v = dropWhile isspace (rev u)"
  have sv: "strip s = rev v" by (simp add: strip_def u_def v_def)
  with False have v: "v \<noteq> []" by simp
  then have u: "u \<noteq> []" by (auto simp: v_def)
  have "\<not> isspace (hd v)" using v unfolding v_def by (rule hd_dropWhile)
  then have l: "\<not> isspace (last (strip s))" using v by (simp add: sv last_rev)
  have "last v = last (rev u)" using v unfolding v_def by (rule last_dropWhile)
  then have "hd (strip s) = hd u" using u v by (simp add: sv hd_rev last_rev)
  moreover have "\<not> isspace (hd u)" using u unfolding u_def by (rule hd_dropWhile)
  ultimately show ?thesis using l by simp
qed simp

lemma strip_fixed:
  assumes "s \<noteq> []" and "\<not> isspace (hd s)" and "\<not> isspace (last s)"
  shows "strip s = s"
proof -
  have "dropWhile isspace s = s" using assms by (simp add: dropWhile_eq_self_iff)
  moreover have "dropWhile isspace (rev s) = rev s"
    using assms by (simp add: dropWhile_eq_self_iff hd_rev)
  ultimately show ?thesis by (simp add: strip_def)
qed

lemma join_ends:
  "ss \<noteq> [] \<Longrightarrow> [] \<notin> set ss \<Longrightarrow>
   join sep ss \<noteq> [] \<and> hd (join sep ss) = hd (hd ss) \<and> last (join sep ss) = last (last ss)"
  by (induction sep ss rule: join.induct) auto

lemma join_single_separator: "join [c] ss = tl (concat (map ((#) c) ss))"
  by (induction "[c]" ss rule: join.induct) simp_all

lemma stripped_strings_ends:
  "p \<in> set (stripped_strings sp) \<Longrightarrow> p \<noteq> [] \<and> \<not> isspace (hd p) \<and> \<not> isspace (last p)"
  using strip_ends by (auto simp: stripped_strings_def)

lemma get_text_trimmed: "strip (get_text sp) = get_text sp"
proof (cases "stripped_strings sp = []")
  case True
  then show ?thesis by (simp add: get_text_def strip_def)
next
  case False
  have no: "[] \<notin> set (stripped_strings sp)" by (auto simp: stripped_strings_def)
  have h: "hd (stripped_strings sp) \<in> set (stripped_strings sp)"
    and l: "last (stripped_strings sp) \<in> set (stripped_strings sp)"
    using False by simp_all
  from join_ends [OF False no, of "py '' ''"] stripped_strings_ends [OF h] stripped_strings_ends [OF l]
  show ?thesis by (auto simp: get_text_def intro: strip_fixed)
qed

subsection \<open>Runs on the example collaborators\<close>

lemma page_text_parsed_page: "page_text (parsed_page html) = py ''We sell cloud SaaS tools''"
  by (simp add: page_text_def parsed_page_def get_text_def stripped_strings_def decompose_soup_def
      REMOVED_TAGS_def py_def strip_def isspace_def)

lemma strip_replicate: "\<not> isspace c \<Longrightarrow> strip (replicate n c) = replicate n c"
  by (simp add: strip_def)

lemma page_text_long_page: "page_text (long_page html) = replicate 6000 97"
proof -
  have "\<not> isspace 97" by (simp add: isspace_def)
  then have "strip (replicate 6000 97) = replicate 6000 97" by (rule strip_replicate)
  then show ?thesis
    by (simp add: page_text_def long_page_def get_text_def stripped_strings_def
        decompose_soup_def REMOVED_TAGS_def py_def)
qed

lemma page_text_script_only: "page_text (script_only html) = []"
  by (simp add: page_text_def script_only_def get_text_def stripped_strings_def
      decompose_soup_def REMOVED_TAGS_def py_def strip_def isspace_def)

lemma run_saas:
  "categorize_website page_200 parsed_page model_saas (py ''https://example.com/'') []
   = (Inr [py ''SaaS'', py ''Business''], [py ''We sell cloud SaaS tools''])"
  by (simp add: categorize_website_def extract_website_text_async_def page_200_def
      page_text_parsed_page is_success_def model_saas_def categories_or_default_def
      valid_categories_def ALLOWED_NICHES_def py_def)

lemma clamping_example_order_duplicates:
  "categories_or_default [py ''Finance'', py ''Casino'', py ''Finance'']
     = [py ''Finance'', py ''Casino'', py ''Finance'']"
  by (simp add: categories_or_default_def valid_categories_def ALLOWED_NICHES_def py_def)

lemma clamping_example_case_sensitive:
  "categories_or_default [py ''finance'', py ''Crypto Stuff''] = [py ''Business'']"
  by (simp add: categories_or_default_def valid_categories_def ALLOWED_NICHES_def py_def)

section \<open>The claims\<close>

text \<open>
  Claim C1. Every successful (HTTP 200) response of the categorize endpoint carries a
  list of categories that is non-empty and whose elements are all members of
  \<open>ALLOWED_NICHES\<close>.
\<close>

theorem successful_response_invariant:
  "respond (fst (categorize_website client_get BeautifulSoup ainvoke url backend)) = Json200 cats
   \<Longrightarrow> cats \<noteq> [] \<and> set cats \<subseteq> set ALLOWED_NICHES"
proof -
  assume "respond (fst (categorize_website client_get BeautifulSoup ainvoke url backend))
    = Json200 cats"
  then have "fst (categorize_website client_get BeautifulSoup ainvoke url backend) = Inr cats"
    by (simp add: respond_Json200_iff)
  from categorize_success [OF this] obtain cs where "cats = categories_or_default cs"
    by blast
  then show ?thesis
    using categories_or_default_nonempty [of cs] categories_or_default_allowed [of cs]
    by simp
qed

theorem successful_response_invariant_witness:
  "respond (fst (categorize_website page_200 parsed_page model_saas
      (py ''https://example.com/'') []))
     = Json200 [py ''SaaS'', py ''Business'']
   \<and> [py ''SaaS'', py ''Business''] \<noteq> []
   \<and> set [py ''SaaS'', py ''Business''] \<subseteq> set ALLOWED_NICHES"
proof -
  have "respond (fst (categorize_website page_200 parsed_page model_saas
          (py ''https://example.com/'') [])) = Json200 [py ''SaaS'', py ''Business'']"
    by (simp add: run_saas)
  then show ?thesis
    using successful_response_invariant [of page_200 parsed_page model_saas
        "py ''https://example.com/''" "[]" "[py ''SaaS'', py ''Business'']"]
    by simp
qed


text \<open>
  Claim C3, as stated: the allow-list of the program is, label for label and character
  for character, the list printed in the specification. It is not: the third label of the
  program has a space on each side of the slash.
\<close>

theorem allowed_niches_differs_from_spec: "ALLOWED_NICHES \<noteq> spec_AllowedNiches"
  by (simp add: ALLOWED_NICHES_def spec_AllowedNiches_def py_def)

text \<open>
  Claim C3, amended: the allow-list has 19 pairwise distinct labels and is the list of the
  specification with its third label replaced by
  \<open>Technology / Gadgets & Technology\<close>.
\<close>

theorem allowed_niches_exact:
  "ALLOWED_NICHES = spec_AllowedNiches[2 := py ''Technology / Gadgets & Technology'']
   \<and> length ALLOWED_NICHES = 19 \<and> distinct ALLOWED_NICHES"
  by (simp add: ALLOWED_NICHES_def spec_AllowedNiches_def py_def)

text \<open>
  Claim C4. For a fetched page (a 2xx response) with non-empty stripped text, the
  extractor returns the first 5000 code points of that text, and the handler invokes the
  classifier on exactly that text: its result and the state of the backend after the
  request are those of \<open>ainvoke\<close> applied to the first 5000 code points. These are
  exactly 5000 code points when the text is longer than that, and the text unchanged when
  it has at most 5000. (An empty text is the failure of claim C7: nothing is passed on at
  all.)
\<close>

theorem truncation:
  assumes "client_get url = Inr r" and "is_success (status_code r)"
    and "page_text (BeautifulSoup (body r)) = t" and "t \<noteq> []"
  shows "extract_website_text_async client_get BeautifulSoup url = Inr (take 5000 t)
    \<and> categorize_website client_get BeautifulSoup ainvoke url backend =
        (case fst (ainvoke (take 5000 t) backend) of
           Inl e \<Rightarrow>
             if is_Exception e
             then Inl (HTTPException 500 (py ''LLM failed to process the request.''))
             else Inl e
         | Inr categories \<Rightarrow> Inr (categories_or_default categories),
         snd (ainvoke (take 5000 t) backend))
    \<and> (5000 < length t \<longrightarrow> length (take 5000 t) = 5000)
    \<and> (length t \<le> 5000 \<longrightarrow> take 5000 t = t)"
proof -
  have ex: "extract_website_text_async client_get BeautifulSoup url = Inr (take 5000 t)"
    using assms extract_ok [of client_get url r BeautifulSoup] by simp
  show ?thesis
    using ex categorize_after_extract [OF ex, of ainvoke backend] by simp
qed

theorem truncation_witness:
  "extract_website_text_async (page_status 200) long_page (py ''https://example.com/'')
     = Inr (replicate 5000 97)
   \<and> categorize_website (page_status 200) long_page model_saas (py ''https://example.com/'') []
     = (Inr [py ''SaaS'', py ''Business''], [replicate 5000 97])
   \<and> categorize_website (page_status 200) long_page model_fails (py ''https://example.com/'') []
     = (Inl (HTTPException 500 (py ''LLM failed to process the request.'')),
        [replicate 5000 97])
   \<and> categorize_website page_200 parsed_page model_saas (py ''https://example.com/'') []
     = (Inr [py ''SaaS'', py ''Business''], [py ''We sell cloud SaaS tools''])"
proof -
  have a: "page_status 200 (py ''https://example.com/'') = Inr \<lparr>status_code = 200, body = []\<rparr>"
    by (simp add: page_status_def)
  have b: "is_success (status_code \<lparr>status_code = 200, body = []\<rparr>)"
    by (simp add: is_success_def)
  have c: "replicate 6000 (97::nat) \<noteq> []" by simp
  have d: "page_200 (py ''https://example.com/'')
     = Inr \<lparr>status_code = 200, body = py ''<p>We sell cloud SaaS tools</p>''\<rparr>"
    by (simp add: page_200_def)
  have e: "is_success (status_code \<lparr>status_code = 200, body = py ''<p>We sell cloud SaaS tools</p>''\<rparr>)"
    by (simp add: is_success_def)
  have f: "py ''We sell cloud SaaS tools'' \<noteq> []" by (simp add: py_def)
  have g: "length (py ''We sell cloud SaaS tools'') \<le> 5000" by (simp add: py_def)
  have h: "categories_or_default [py ''SaaS'', py ''Crypto Stuff'', py ''Business'']
     = [py ''SaaS'', py ''Business'']"
    by (simp add: categories_or_default_def valid_categories_def ALLOWED_NICHES_def py_def)
  show ?thesis
    using a b c d e f g h page_text_long_page [of "[]"]
      page_text_parsed_page [of "py ''<p>We sell cloud SaaS tools</p>''"]
      truncation [where client_get = "page_status 200" and url = "py ''https://example.com/''"
        and r = "\<lparr>status_code = 200, body = []\<rparr>" and BeautifulSoup = long_page
        and t = "replicate 6000 97" and ainvoke = model_saas and backend = "[]"]
      truncation [where client_get = "page_status 200" and url = "py ''https://example.com/''"
        and r = "\<lparr>status_code = 200, body = []\<rparr>" and BeautifulSoup = long_page
        and t = "replicate 6000 97" and ainvoke = model_fails and backend = "[]"]
      truncation [where client_get = page_200 and url = "py ''https://example.com/''"
        and r = "\<lparr>status_code = 200, body = py ''<p>We sell cloud SaaS tools</p>''\<rparr>"
        and BeautifulSoup = parsed_page and t = "py ''We sell cloud SaaS tools''"
        and ainvoke = model_saas and backend = "[]"]
    by (simp add: model_saas_def model_fails_def)
qed

text \<open>
  Claim C5. The text the extractor produces holds no text from inside a \<open>script\<close>,
  \<open>style\<close>, \<open>nav\<close>, \<open>footer\<close> or \<open>header\<close> element: the
  strings collected after the removal are exactly those of the parsed page none of whose
  enclosing tags, at any depth, has one of the five names, in document order, and no tag
  with such a name is left in the tree. The non-empty stripped strings are joined with a
  single space: the text is what remains of the concatenation of the strings, each with
  one space (code point 32) put in front, when the first of these spaces is taken away.
  The result is trimmed (stripping it changes nothing), and the extractor returns its
  first 5000 code points.
\<close>

theorem tag_stripping:
  "stripped_strings (decompose_soup REMOVED_TAGS sp) =
     filter (\<lambda>s. s \<noteq> []) (map strip (map snd
       (filter (\<lambda>p. set (fst p) \<inter> set REMOVED_TAGS = {})
          (concat (map (\<lambda>n. located_strings n []) sp)))))
   \<and> \<Union> (tag_names ` set (decompose_soup REMOVED_TAGS sp)) \<inter> set REMOVED_TAGS = {}
   \<and> page_text sp = join (py '' '') (stripped_strings (decompose_soup REMOVED_TAGS sp))
   \<and> page_text sp =
       tl (concat (map ((#) 32)
         (filter (\<lambda>s. s \<noteq> []) (map strip (map snd
           (filter (\<lambda>p. set (fst p) \<inter> set REMOVED_TAGS = {})
              (concat (map (\<lambda>n. located_strings n []) sp))))))))
   \<and> strip (page_text sp) = page_text sp
   \<and> (client_get url = Inr r \<and> is_success (status_code r) \<and> BeautifulSoup (body r) = sp
        \<and> page_text sp \<noteq> [] \<longrightarrow>
      extract_website_text_async client_get BeautifulSoup url = Inr (take 5000 (page_text sp)))"
proof -
  have pieces: "stripped_strings (decompose_soup REMOVED_TAGS sp) =
     filter (\<lambda>s. s \<noteq> []) (map strip (map snd
       (filter (\<lambda>p. set (fst p) \<inter> set REMOVED_TAGS = {})
          (concat (map (\<lambda>n. located_strings n []) sp)))))"
    unfolding stripped_strings_def all_strings_decompose_soup ..
  have "\<Union> (tag_names ` set (decompose_soup REMOVED_TAGS sp)) \<inter> set REMOVED_TAGS = {}"
    by (rule tag_names_decompose_soup)
  moreover have joined:
    "page_text sp = join (py '' '') (stripped_strings (decompose_soup REMOVED_TAGS sp))"
    by (simp add: page_text_def get_text_def)
  moreover have "page_text sp =
       tl (concat (map ((#) 32)
         (filter (\<lambda>s. s \<noteq> []) (map strip (map snd
           (filter (\<lambda>p. set (fst p) \<inter> set REMOVED_TAGS = {})
              (concat (map (\<lambda>n. located_strings n []) sp))))))))"
  proof -
    have "py '' '' = [32]" by (simp add: py_def)
    with joined have "page_text sp =
        tl (concat (map ((#) 32) (stripped_strings (decompose_soup REMOVED_TAGS sp))))"
      by (simp add: join_single_separator)
    then show ?thesis unfolding pieces .
  qed
  moreover have "strip (page_text sp) = page_text sp"
    unfolding page_text_def by (rule get_text_trimmed)
  moreover have "client_get url = Inr r \<and> is_success (status_code r) \<and> BeautifulSoup (body r) = sp
        \<and> page_text sp \<noteq> [] \<longrightarrow>
      extract_website_text_async client_get BeautifulSoup url = Inr (take 5000 (page_text sp))"
    using extract_ok [of client_get url r BeautifulSoup] by auto
  ultimately show ?thesis using pieces by blast
qed

theorem tag_stripping_witness:
  "page_text (two_paragraphs (py ''<p>We sell cloud SaaS tools</p>''))
     = py ''We sell cloud SaaS tools''
   \<and> stripped_strings (decompose_soup REMOVED_TAGS
       (two_paragraphs (py ''<p>We sell cloud SaaS tools</p>'')))
     = [py ''We sell'', py ''cloud SaaS'', py ''tools'']
   \<and> extract_website_text_async page_200 two_paragraphs (py ''https://example.com/'')
     = Inr (py ''We sell cloud SaaS tools'')"
proof -
  have a: "page_200 (py ''https://example.com/'')
     = Inr \<lparr>status_code = 200, body = py ''<p>We sell cloud SaaS tools</p>''\<rparr>"
    by (simp add: page_200_def)
  have b: "is_success (status_code \<lparr>status_code = 200, body = py ''<p>We sell cloud SaaS tools</p>''\<rparr>)"
    by (simp add: is_success_def)
  have c: "filter (\<lambda>s. s \<noteq> []) (map strip (map snd
       (filter (\<lambda>p. set (fst p) \<inter> set REMOVED_TAGS = {})
          (concat (map (\<lambda>n. located_strings n [])
            (two_paragraphs (py ''<p>We sell cloud SaaS tools</p>''))))))) 
     = [py ''We sell'', py ''cloud SaaS'', py ''tools'']"
    by (simp add: two_paragraphs_def REMOVED_TAGS_def py_def strip_def isspace_def)
  have d: "tl (concat (map ((#) 32) [py ''We sell'', py ''cloud SaaS'', py ''tools'']))
     = py ''We sell cloud SaaS tools''"
    by (simp add: py_def)
  have e: "py ''We sell cloud SaaS tools'' \<noteq> []"
    and g: "take 5000 (py ''We sell cloud SaaS tools'') = py ''We sell cloud SaaS tools''"
    by (simp_all add: py_def)
  note ts = tag_stripping [where sp = "two_paragraphs (py ''<p>We sell cloud SaaS tools</p>'')"
        and client_get = page_200 and url = "py ''https://example.com/''"
        and r = "\<lparr>status_code = 200, body = py ''<p>We sell cloud SaaS tools</p>''\<rparr>"
        and BeautifulSoup = two_paragraphs]
  from ts have "page_text (two_paragraphs (py ''<p>We sell cloud SaaS tools</p>'')) =
       tl (concat (map ((#) 32)
         (filter (\<lambda>s. s \<noteq> []) (map strip (map snd
           (filter (\<lambda>p. set (fst p) \<inter> set REMOVED_TAGS = {})
              (concat (map (\<lambda>n. located_strings n [])
                (two_paragraphs (py ''<p>We sell cloud SaaS tools</p>''))))))))))"
    by blast
  then have whole: "page_text (two_paragraphs (py ''<p>We sell cloud SaaS tools</p>''))
     = py ''We sell cloud SaaS tools''"
    by (simp only: c d)
  from ts have "stripped_strings (decompose_soup REMOVED_TAGS
       (two_paragraphs (py ''<p>We sell cloud SaaS tools</p>''))) =
     filter (\<lambda>s. s \<noteq> []) (map strip (map snd
       (filter (\<lambda>p. set (fst p) \<inter> set REMOVED_TAGS = {})
          (concat (map (\<lambda>n. located_strings n [])
            (two_paragraphs (py ''<p>We sell cloud SaaS tools</p>''))))))) "
    by blast
  then have pieces: "stripped_strings (decompose_soup REMOVED_TAGS
       (two_paragraphs (py ''<p>We sell cloud SaaS tools</p>'')))
     = [py ''We sell'', py ''cloud SaaS'', py ''tools'']"
    by (simp only: c)
  have bd: "two_paragraphs (body \<lparr>status_code = 200, body = py ''<p>We sell cloud SaaS tools</p>''\<rparr>)
     = two_paragraphs (py ''<p>We sell cloud SaaS tools</p>'')"
    by simp
  have ne: "page_text (two_paragraphs (py ''<p>We sell cloud SaaS tools</p>'')) \<noteq> []"
    using whole e by simp
  from ts a b bd ne
  have "extract_website_text_async page_200 two_paragraphs (py ''https://example.com/'')
     = Inr (take 5000 (page_text (two_paragraphs (py ''<p>We sell cloud SaaS tools</p>''))))"
    by blast
  then have "extract_website_text_async page_200 two_paragraphs (py ''https://example.com/'')
     = Inr (py ''We sell cloud SaaS tools'')"
    by (simp only: whole g)
  with whole pieces show ?thesis by blast
qed

text \<open>
  Claim C6. When the fetch returns status 403, the handler ends with the
  \<open>HTTPException\<close> of status 403 and the detail
  \<open>Access denied by website (Cloudflare/Bot protection).\<close>, the endpoint responds
  with that status and detail, and the classifier is not invoked: whatever the classifier
  is, the state of the backend is what it was before the request.
\<close>

theorem access_denied:
  assumes "client_get url = Inr r" and "status_code r = 403"
  shows "categorize_website client_get BeautifulSoup ainvoke url backend =
      (Inl (HTTPException 403 (py ''Access denied by website (Cloudflare/Bot protection).'')),
       backend)
    \<and> respond (fst (categorize_website client_get BeautifulSoup ainvoke url backend)) =
      JsonError 403 (py ''Access denied by website (Cloudflare/Bot protection).'')"
  using assms by (simp add: categorize_website_def extract_403)

theorem access_denied_witness:
  "page_status 403 (py ''https://example.com/'') = Inr \<lparr>status_code = 403, body = []\<rparr>
   \<and> status_code \<lparr>status_code = 403, body = []\<rparr> = 403
   \<and> categorize_website (page_status 403) parsed_page model_saas (py ''https://example.com/'') [] =
      (Inl (HTTPException 403 (py ''Access denied by website (Cloudflare/Bot protection).'')), [])"
  using access_denied [where client_get = "page_status 403" and url = "py ''https://example.com/''"
      and r = "\<lparr>status_code = 403, body = []\<rparr>" and BeautifulSoup = parsed_page
      and ainvoke = model_saas and backend = "[]"]
  by (simp add: page_status_def)

text \<open>
  Claim C7. When the fetch returns a status that is neither 2xx nor 403, and when it
  succeeds but the stripped text is empty, the request ends with the exception raised in
  the extractor (\<open>HTTPStatusError\<close>, \<open>ValueError\<close>), which the handler lets
  through: the classifier is not invoked, and the response is the server's error 500,
  never a 200 with an empty or a default list.
\<close>

theorem fetch_failures_are_errors:
  "(client_get url = Inr r \<and> status_code r \<noteq> 403 \<and> \<not> is_success (status_code r) \<longrightarrow>
      categorize_website client_get BeautifulSoup ainvoke url backend =
        (Inl (HTTPStatusError (status_code r)), backend)
      \<and> respond (fst (categorize_website client_get BeautifulSoup ainvoke url backend)) =
        InternalServerError)
   \<and> (client_get url = Inr r \<and> is_success (status_code r)
        \<and> page_text (BeautifulSoup (body r)) = [] \<longrightarrow>
      categorize_website client_get BeautifulSoup ainvoke url backend =
        (Inl (ValueError (py ''Website returned no readable text.'')), backend)
      \<and> respond (fst (categorize_website client_get BeautifulSoup ainvoke url backend)) =
        InternalServerError)"
  by (simp add: categorize_website_def extract_status_error extract_empty)

theorem fetch_failures_are_errors_witness:
  "categorize_website (page_status 404) parsed_page model_saas (py ''https://example.com/'') []
     = (Inl (HTTPStatusError 404), [])
   \<and> categorize_website (page_status 200) script_only model_saas (py ''https://example.com/'') []
     = (Inl (ValueError (py ''Website returned no readable text.'')), [])
   \<and> response_status (respond (fst (categorize_website (page_status 404) parsed_page model_saas
         (py ''https://example.com/'') []))) = Some 500"
  using fetch_failures_are_errors [where client_get = "page_status 404"
      and url = "py ''https://example.com/''" and r = "\<lparr>status_code = 404, body = []\<rparr>"
      and BeautifulSoup = parsed_page and ainvoke = model_saas and backend = "[]"]
    fetch_failures_are_errors [where client_get = "page_status 200"
      and url = "py ''https://example.com/''" and r = "\<lparr>status_code = 200, body = []\<rparr>"
      and BeautifulSoup = script_only and ainvoke = model_saas and backend = "[]"]
    page_text_script_only [of "[]"]
  by (simp add: page_status_def is_success_def)

text \<open>
  Claim C8. Whatever instance of \<open>Exception\<close> the classification step raises
  (a backend error, a response that does not fit the schema, anything else), the endpoint
  responds with status 500 and the fixed detail
  \<open>LLM failed to process the request.\<close>: the response does not depend on the
  exception, so nothing of it reaches the caller.
\<close>

theorem classifier_failure_is_500:
  assumes "extract_website_text_async client_get BeautifulSoup url = Inr t"
    and "fst (ainvoke t backend) = Inl e" and "is_Exception e"
  shows "categorize_website client_get BeautifulSoup ainvoke url backend =
      (Inl (HTTPException 500 (py ''LLM failed to process the request.'')),
       snd (ainvoke t backend))
    \<and> respond (fst (categorize_website client_get BeautifulSoup ainvoke url backend)) =
      JsonError 500 (py ''LLM failed to process the request.'')"
  using assms by (simp add: categorize_after_extract)

theorem classifier_failure_is_500_witness:
  "extract_website_text_async page_200 parsed_page (py ''https://example.com/'')
     = Inr (py ''We sell cloud SaaS tools'')
   \<and> fst (model_fails (py ''We sell cloud SaaS tools'') [])
     = Inl (OtherException (py ''429 quota exceeded for key''))
   \<and> is_Exception (OtherException (py ''429 quota exceeded for key''))
   \<and> respond (fst (categorize_website page_200 parsed_page model_fails
        (py ''https://example.com/'') []))
     = JsonError 500 (py ''LLM failed to process the request.'')"
proof -
  have ex: "extract_website_text_async page_200 parsed_page (py ''https://example.com/'')
     = Inr (py ''We sell cloud SaaS tools'')"
    using extract_ok [where client_get = page_200 and url = "py ''https://example.com/''"
        and r = "\<lparr>status_code = 200, body = py ''<p>We sell cloud SaaS tools</p>''\<rparr>"
        and BeautifulSoup = parsed_page]
    by (simp add: page_200_def is_success_def page_text_parsed_page) (simp add: py_def)
  have m: "fst (model_fails (py ''We sell cloud SaaS tools'') [])
     = Inl (OtherException (py ''429 quota exceeded for key''))"
    by (simp add: model_fails_def)
  have i: "is_Exception (OtherException (py ''429 quota exceeded for key''))" by simp
  show ?thesis
    using ex m i classifier_failure_is_500 [where client_get = page_200
        and BeautifulSoup = parsed_page and url = "py ''https://example.com/''"
        and t = "py ''We sell cloud SaaS tools''" and ainvoke = model_fails
        and backend = "[]" and e = "OtherException (py ''429 quota exceeded for key'')"]
    by simp
qed

text \<open>
  Claim C9. The classifier is invoked only when the extractor has returned a text, and
  then on that text: the state of the backend after the request is the one before it when
  the extractor fails, and the one \<open>ainvoke\<close> leaves on the extracted text otherwise.
  When the extractor fails, the request ends with the extractor's own exception and its
  response, whatever the classifier would do: no generic error of the classification step
  and no fallback content takes its place.
\<close>

theorem extractor_failure_terminates:
  "(extract_website_text_async client_get BeautifulSoup url = Inl exc \<longrightarrow>
      categorize_website client_get BeautifulSoup ainvoke url backend = (Inl exc, backend)
      \<and> respond (fst (categorize_website client_get BeautifulSoup ainvoke url backend))
          = respond (Inl exc))
   \<and> snd (categorize_website client_get BeautifulSoup ainvoke url backend) =
       (case extract_website_text_async client_get BeautifulSoup url of
          Inl exc \<Rightarrow> backend | Inr text_content \<Rightarrow> snd (ainvoke text_content backend))"
  by (simp add: categorize_website_def split: sum.splits prod.splits)

theorem extractor_failure_terminates_witness:
  "extract_website_text_async network_down parsed_page (py ''https://example.com/'')
     = Inl (HTTPException 502 (py ''Network error: All connection attempts failed''))
   \<and> categorize_website network_down parsed_page model_fails (py ''https://example.com/'') []
     = (Inl (HTTPException 502 (py ''Network error: All connection attempts failed'')), [])"
proof -
  have "extract_website_text_async network_down parsed_page (py ''https://example.com/'')
     = Inl (HTTPException 502 (py ''Network error: All connection attempts failed''))"
    by (simp add: extract_website_text_async_def network_down_def py_def)
  then show ?thesis
    using extractor_failure_terminates [where client_get = network_down
        and BeautifulSoup = parsed_page and url = "py ''https://example.com/''"
        and ainvoke = model_fails and backend = "[]"
        and exc = "HTTPException 502 (py ''Network error: All connection attempts failed'')"]
    by simp
qed

text \<open>
  Claim C10. Applying the clamp-and-default step to a list it has produced returns that
  list unchanged; and on every list whose elements all belong to \<open>ALLOWED_NICHES\<close>
  the filter keeps every element in place.
\<close>

theorem clamp_idempotent:
  "categories_or_default (categories_or_default cs) = categories_or_default cs
   \<and> (set cs \<subseteq> set ALLOWED_NICHES \<longrightarrow> valid_categories cs = cs)"
proof -
  have "valid_categories (categories_or_default cs) = categories_or_default cs"
    by (rule valid_categories_id) (rule categories_or_default_allowed)
  then have "categories_or_default (categories_or_default cs) = categories_or_default cs"
    using categories_or_default_nonempty [of cs]
    by (simp add: categories_or_default_def [of "categories_or_default cs"] Let_def)
  then show ?thesis by (simp add: valid_categories_id)
qed

theorem clamp_idempotent_witness:
  "set [py ''Business''] \<subseteq> set ALLOWED_NICHES
   \<and> valid_categories [py ''Business''] = [py ''Business'']
   \<and> categories_or_default (categories_or_default [py ''Casino'', py ''casino''])
       = [py ''Casino'']"
proof -
  have sub: "set [py ''Business''] \<subseteq> set ALLOWED_NICHES"
    by (simp add: Business_allowed)
  have "categories_or_default [py ''Casino'', py ''casino''] = [py ''Casino'']"
    by (simp add: categories_or_default_def valid_categories_def ALLOWED_NICHES_def py_def)
  then show ?thesis
    using sub clamp_idempotent [of "[py ''Business'']"]
      clamp_idempotent [of "[py ''Casino'', py ''casino'']"]
    by simp
qed

end
